theory Spec2Isabelle
  imports Complex_Main "HOL-Library.AList"
begin

section \<open>JavaScript values\<close>

text \<open>
  The workflow variables, the elicitation responses and the results of states are
  untyped JavaScript values (\<^verbatim>\<open>any\<close>). A number is \<^verbatim>\<open>NaN\<close>, an infinity or a finite
  value; finite values are kept as exact rationals, so the rounding of binary64 is not
  part of the model (it is exact on the integer literals used below). Strings are lists
  of 8-bit code units. An object is the list of its own enumerable properties in
  enumeration order; inherited properties of \<^verbatim>\<open>Object.prototype\<close> are not modelled.
\<close>

datatype jsnum = NaN | PosInf | NegInf | Fin rat

datatype jsval =
    JUndefined
  | JNull
  | JBool bool
  | JNum jsnum
  | JStr string
  | JArr "jsval list"
  | JObj "(string \<times> jsval) list"

text \<open>
  The built-ins of the host that the code calls and that are taken as given:
  \<^verbatim>\<open>new RegExp(source).test(subject)\<close>, \<^verbatim>\<open>subject.replace(new RegExp(source, 'g'), replacement)\<close>,
  the digits of \<^verbatim>\<open>Number.prototype.toString\<close> for a value that is not a whole number
  below \<^verbatim>\<open>1e21\<close>, and \<^verbatim>\<open>JSON.stringify\<close> inside a template literal. Regular-expression sources are taken to be well-formed: the
  \<^verbatim>\<open>SyntaxError\<close> of the constructor is outside the model.
\<close>

record host =
  regexTest :: "string \<Rightarrow> string \<Rightarrow> bool"
  regexReplaceAll :: "string \<Rightarrow> string \<Rightarrow> string \<Rightarrow> string"
  fractionToString :: "rat \<Rightarrow> string"
  jsonStringify :: "jsval \<Rightarrow> string"

subsection \<open>Numbers: comparison and subtraction\<close>


text \<open>\<^verbatim>\<open>x < y\<close> on numbers: false as soon as one side is \<^verbatim>\<open>NaN\<close>.\<close>

fun num_lt :: "jsnum \<Rightarrow> jsnum \<Rightarrow> bool" where
  "num_lt NaN y = False"
| "num_lt x NaN = False"
| "num_lt PosInf y = False"
| "num_lt x NegInf = False"
| "num_lt NegInf y = True"
| "num_lt x PosInf = True"
| "num_lt (Fin a) (Fin b) = (a < b)"

definition num_eq :: "jsnum \<Rightarrow> jsnum \<Rightarrow> bool" where
  "num_eq x y = (x \<noteq> NaN \<and> y \<noteq> NaN \<and> x = y)"

definition num_gt :: "jsnum \<Rightarrow> jsnum \<Rightarrow> bool" where
  "num_gt x y = num_lt y x"

definition num_le :: "jsnum \<Rightarrow> jsnum \<Rightarrow> bool" where
  "num_le x y = (num_lt x y \<or> num_eq x y)"

definition num_ge :: "jsnum \<Rightarrow> jsnum \<Rightarrow> bool" where
  "num_ge x y = (num_lt y x \<or> num_eq x y)"

fun num_sub :: "jsnum \<Rightarrow> jsnum \<Rightarrow> jsnum" where
  "num_sub NaN y = NaN"
| "num_sub x NaN = NaN"
| "num_sub PosInf PosInf = NaN"
| "num_sub NegInf NegInf = NaN"
| "num_sub PosInf y = PosInf"
| "num_sub NegInf y = NegInf"
| "num_sub (Fin a) PosInf = NegInf"
| "num_sub (Fin a) NegInf = PosInf"
| "num_sub (Fin a) (Fin b) = Fin (a - b)"

subsection \<open>\<^verbatim>\<open>Number(string)\<close>\<close>

definition isStrWhiteSpace :: "char \<Rightarrow> bool" where
  "isStrWhiteSpace c = ((of_char c :: nat) \<in> {9, 10, 11, 12, 13, 32, 160})"

definition trim :: "string \<Rightarrow> string" where
  "trim s = rev (dropWhile isStrWhiteSpace (rev (dropWhile isStrWhiteSpace s)))"

definition isDigitChar :: "char \<Rightarrow> bool" where
  "isDigitChar c = (48 \<le> (of_char c :: nat) \<and> (of_char c :: nat) \<le> 57)"

text \<open>The value of a digit in a radix up to 16, \<open>None\<close> for any other character.\<close>

definition radixDigit :: "nat \<Rightarrow> char \<Rightarrow> nat option" where
  "radixDigit radix c =
     (let n = (of_char c :: nat);
          v = (if 48 \<le> n \<and> n \<le> 57 then Some (n - 48)
               else if 97 \<le> n \<and> n \<le> 102 then Some (n - 87)
               else if 65 \<le> n \<and> n \<le> 70 then Some (n - 55)
               else None)
      in case v of None \<Rightarrow> None | Some d \<Rightarrow> if d < radix then Some d else None)"

definition digitsValue :: "nat \<Rightarrow> string \<Rightarrow> nat" where
  "digitsValue radix ds = foldl (\<lambda>a c. radix * a + (case radixDigit radix c of Some d \<Rightarrow> d | None \<Rightarrow> 0)) 0 ds"

definition pow10 :: "int \<Rightarrow> rat" where
  "pow10 ex = (if 0 \<le> ex then 10 ^ nat ex else 1 / 10 ^ nat (- ex))"

text \<open>What follows the mantissa: nothing, or \<^verbatim>\<open>e\<close>, an optional sign and at least one digit.\<close>

definition parseExponent :: "string \<Rightarrow> int option" where
  "parseExponent s =
     (case s of
        [] \<Rightarrow> Some 0
      | c # r \<Rightarrow>
          if c = CHR ''e'' \<or> c = CHR ''E'' then
            (let neg = (r \<noteq> [] \<and> hd r = CHR ''-'');
                 ds = (if r \<noteq> [] \<and> (hd r = CHR ''-'' \<or> hd r = CHR ''+'') then tl r else r)
             in if ds \<noteq> [] \<and> list_all isDigitChar ds
                then Some (if neg then - int (digitsValue 10 ds) else int (digitsValue 10 ds))
                else None)
          else None)"

definition parseUnsignedDecimal :: "string \<Rightarrow> rat option" where
  "parseUnsignedDecimal s =
     (let ip = takeWhile isDigitChar s;
          r1 = dropWhile isDigitChar s;
          hasDot = (r1 \<noteq> [] \<and> hd r1 = CHR ''.'');
          fp = (if hasDot then takeWhile isDigitChar (tl r1) else []);
          r2 = (if hasDot then dropWhile isDigitChar (tl r1) else r1)
      in if ip = [] \<and> fp = [] then None
         else (case parseExponent r2 of
                 None \<Rightarrow> None
               | Some ex \<Rightarrow>
                   Some ((of_nat (digitsValue 10 ip)
                          + of_nat (digitsValue 10 fp) / 10 ^ length fp) * pow10 ex)))"

definition parseStrDecimalLiteral :: "string \<Rightarrow> jsnum" where
  "parseStrDecimalLiteral s =
     (let neg = (s \<noteq> [] \<and> hd s = CHR ''-'');
          body = (if s \<noteq> [] \<and> (hd s = CHR ''-'' \<or> hd s = CHR ''+'') then tl s else s)
      in if body = ''Infinity'' then (if neg then NegInf else PosInf)
         else (case parseUnsignedDecimal body of
                 None \<Rightarrow> NaN
               | Some v \<Rightarrow> Fin (if neg then - v else v)))"

definition parseRadix :: "nat \<Rightarrow> string \<Rightarrow> jsnum" where
  "parseRadix radix ds =
     (if ds \<noteq> [] \<and> list_all (\<lambda>c. radixDigit radix c \<noteq> None) ds
      then Fin (of_nat (digitsValue radix ds)) else NaN)"

text \<open>
  \<^verbatim>\<open>Number(s)\<close> for a string: surrounding white space is dropped, the empty string is 0,
  then a binary, octal or hexadecimal integer or a signed decimal literal; anything else
  is \<^verbatim>\<open>NaN\<close>.
\<close>

definition stringToNumber :: "string \<Rightarrow> jsnum" where
  "stringToNumber s =
     (let t = trim s in
      if t = [] then Fin 0
      else if 2 \<le> length t \<and> hd t = CHR ''0'' \<and> t ! 1 \<in> {CHR ''x'', CHR ''X''}
        then parseRadix 16 (drop 2 t)
      else if 2 \<le> length t \<and> hd t = CHR ''0'' \<and> t ! 1 \<in> {CHR ''o'', CHR ''O''}
        then parseRadix 8 (drop 2 t)
      else if 2 \<le> length t \<and> hd t = CHR ''0'' \<and> t ! 1 \<in> {CHR ''b'', CHR ''B''}
        then parseRadix 2 (drop 2 t)
      else parseStrDecimalLiteral t)"

subsection \<open>\<^verbatim>\<open>String(value)\<close>, \<^verbatim>\<open>Number(value)\<close>, \<^verbatim>\<open>Boolean(value)\<close>\<close>

fun showNat :: "nat \<Rightarrow> string" where
  "showNat n =
     (if n < 10 then [''0123456789'' ! n]
      else showNat (n div 10) @ [''0123456789'' ! (n mod 10)])"

fun numberToString :: "host \<Rightarrow> jsnum \<Rightarrow> string" where
  "numberToString h NaN = ''NaN''"
| "numberToString h PosInf = ''Infinity''"
| "numberToString h NegInf = ''-Infinity''"
| "numberToString h (Fin r) =
     (if of_int \<lfloor>r\<rfloor> = r \<and> \<bar>r\<bar> < 10 ^ 21
      then (if r < 0 then ''-'' else []) @ showNat (nat \<bar>\<lfloor>r\<rfloor>\<bar>)
      else fractionToString h r)"

fun joinWith :: "string \<Rightarrow> string list \<Rightarrow> string" where
  "joinWith sep [] = []"
| "joinWith sep [x] = x"
| "joinWith sep (x # y # ys) = x @ sep @ joinWith sep (y # ys)"

text \<open>
  \<^verbatim>\<open>String(v)\<close>. An array joins its elements with a comma, \<^verbatim>\<open>null\<close> and \<^verbatim>\<open>undefined\<close>
  elements giving the empty string; a plain object gives \<^verbatim>\<open>[object Object]\<close>.
\<close>

fun toStr :: "host \<Rightarrow> jsval \<Rightarrow> string" where
  "toStr h JUndefined = ''undefined''"
| "toStr h JNull = ''null''"
| "toStr h (JBool b) = (if b then ''true'' else ''false'')"
| "toStr h (JNum n) = numberToString h n"
| "toStr h (JStr s) = s"
| "toStr h (JArr xs) =
     joinWith '','' (map (\<lambda>x. if x = JUndefined \<or> x = JNull then [] else toStr h x) xs)"
| "toStr h (JObj ps) = ''[object Object]''"

fun toNumber :: "host \<Rightarrow> jsval \<Rightarrow> jsnum" where
  "toNumber h JUndefined = NaN"
| "toNumber h JNull = Fin 0"
| "toNumber h (JBool b) = Fin (if b then 1 else 0)"
| "toNumber h (JNum n) = n"
| "toNumber h (JStr s) = stringToNumber s"
| "toNumber h (JArr xs) = stringToNumber (toStr h (JArr xs))"
| "toNumber h (JObj ps) = NaN"

fun truthy :: "jsval \<Rightarrow> bool" where
  "truthy JUndefined = False"
| "truthy JNull = False"
| "truthy (JBool b) = b"
| "truthy (JNum n) = (n \<noteq> NaN \<and> n \<noteq> Fin 0)"
| "truthy (JStr s) = (s \<noteq> [])"
| "truthy (JArr xs) = True"
| "truthy (JObj ps) = True"

definition toLowerChar :: "char \<Rightarrow> char" where
  "toLowerChar c =
     (let n = (of_char c :: nat) in
      if (65 \<le> n \<and> n \<le> 90) \<or> (192 \<le> n \<and> n \<le> 222 \<and> n \<noteq> 215)
      then char_of (n + 32) else c)"

definition toLowerCase :: "string \<Rightarrow> string" where
  "toLowerCase s = map toLowerChar s"

section \<open>Elicitation: the specification and the service\<close>

text \<open>\<^verbatim>\<open>ElicitationSchema\<close> of \<^verbatim>\<open>adf-schema.ts\<close> (the free-form \<^verbatim>\<open>schema\<close> field is never read).\<close>

datatype elicitationType = EConfirm | ESelect | EText | ENumber

record elicitation =
  e_type :: elicitationType
  e_prompt :: string
  e_options :: "string list option"
  e_min :: "jsnum option"
  e_max :: "jsnum option"
  e_pattern :: "string option"
  e_required :: "bool option"


fun typeName :: "elicitationType \<Rightarrow> string" where
  "typeName EConfirm = ''confirm''"
| "typeName ESelect = ''select''"
| "typeName EText = ''text''"
| "typeName ENumber = ''number''"

text \<open>\<^verbatim>\<open>elicitation.options?.join(', ')\<close> inside a template literal.\<close>

definition optionsJoined :: "elicitation \<Rightarrow> string" where
  "optionsJoined e =
     (case e_options e of None \<Rightarrow> ''undefined'' | Some os \<Rightarrow> joinWith '', '' os)"

text \<open>\<^verbatim>\<open>elicitation.options?.length || 0\<close>.\<close>

definition optionsLength :: "elicitation \<Rightarrow> nat" where
  "optionsLength e = (case e_options e of None \<Rightarrow> 0 | Some os \<Rightarrow> length os)"

text \<open>\<^verbatim>\<open>elicitation.options?.includes(String(response))\<close>, \<^verbatim>\<open>undefined\<close> counting as false.\<close>

definition optionsInclude :: "elicitation \<Rightarrow> string \<Rightarrow> bool" where
  "optionsInclude e s = (case e_options e of None \<Rightarrow> False | Some os \<Rightarrow> s \<in> set os)"


text \<open>
  \<^verbatim>\<open>options[index]\<close> for a number inside the bounds of the array: the element when the
  index is whole, \<^verbatim>\<open>undefined\<close> otherwise (no such property).
\<close>

definition optionAt :: "string list \<Rightarrow> rat \<Rightarrow> jsval" where
  "optionAt os i = (if of_int \<lfloor>i\<rfloor> = i then JStr (os ! nat \<lfloor>i\<rfloor>) else JUndefined)"


text \<open>
  A host for running the model on concrete inputs. A regular expression is read as a
  plain string to be found (right for a source without metacharacters), except that a
  source of the form \<^verbatim>\<open>^...$\<close> is read as the anchored sources that the wildcard patterns
  of the executor are turned into: \<^verbatim>\<open>.*\<close> is any run of characters without a line
  terminator and a backslash makes the next character plain. A replacement is the plain
  string (right for a replacement without \<^verbatim>\<open>$\<close>). Fractions are printed as ?, and
  \<^verbatim>\<open>JSON.stringify\<close> quotes a string without escaping (right for a string of plain
  characters) and prints an array or an object as its brackets only.
\<close>

fun isPrefixOf :: "string \<Rightarrow> string \<Rightarrow> bool" where
  "isPrefixOf [] s = True"
| "isPrefixOf (p # ps) [] = False"
| "isPrefixOf (p # ps) (c # cs) = (p = c \<and> isPrefixOf ps cs)"

fun containsLiteral :: "string \<Rightarrow> string \<Rightarrow> bool" where
  "containsLiteral p [] = (p = [])"
| "containsLiteral p (c # cs) = (isPrefixOf p (c # cs) \<or> containsLiteral p cs)"

fun replaceLiteral :: "nat \<Rightarrow> string \<Rightarrow> string \<Rightarrow> string \<Rightarrow> string" where
  "replaceLiteral skip p [] r = []"
| "replaceLiteral skip p (c # cs) r =
     (if 0 < skip then replaceLiteral (skip - 1) p cs r
      else if p \<noteq> [] \<and> isPrefixOf p (c # cs) then r @ replaceLiteral (length p - 1) p cs r
      else c # replaceLiteral 0 p cs r)"

fun jsonPlain :: "jsval \<Rightarrow> string" where
  "jsonPlain JUndefined = ''undefined''"
| "jsonPlain JNull = ''null''"
| "jsonPlain (JBool b) = (if b then ''true'' else ''false'')"
| "jsonPlain (JNum (Fin r)) =
     (if of_int \<lfloor>r\<rfloor> = r then (if r < 0 then ''-'' else []) @ showNat (nat \<bar>\<lfloor>r\<rfloor>\<bar>) else ''?'')"
| "jsonPlain (JNum n) = ''null''"
| "jsonPlain (JStr s) = [CHR 0x22] @ s @ [CHR 0x22]"
| "jsonPlain (JArr xs) = ''[]''"
| "jsonPlain (JObj ps) = ''{}''"

fun matchAnchored :: "string \<Rightarrow> string \<Rightarrow> bool" where
  "matchAnchored [] s = (s = [])"
| "matchAnchored [c] s = (s = [c])"
| "matchAnchored (c # d # p) s =
     (if c = CHR ''.'' \<and> d = CHR ''*''
      then (matchAnchored p s
            \<or> (case s of
                  [] \<Rightarrow> False
                | x # xs \<Rightarrow> (of_char x :: nat) \<notin> {10, 13} \<and> matchAnchored (c # d # p) xs))
      else if c = CHR 0x5C
      then (case s of [] \<Rightarrow> False | x # xs \<Rightarrow> x = d \<and> matchAnchored p xs)
      else (case s of [] \<Rightarrow> False | x # xs \<Rightarrow> x = c \<and> matchAnchored (d # p) xs))"

definition simpleRegexTest :: "string \<Rightarrow> string \<Rightarrow> bool" where
  "simpleRegexTest source subject =
     (if 2 \<le> length source \<and> hd source = CHR ''^'' \<and> last source = CHR ''$''
      then matchAnchored (butlast (tl source)) subject
      else containsLiteral source subject)"

definition literalHost :: host where
  "literalHost =
     \<lparr> regexTest = simpleRegexTest,
       regexReplaceAll = (\<lambda>source subject replacement. replaceLiteral 0 source subject replacement),
       fractionToString = (\<lambda>r. ''?''),
       jsonStringify = jsonPlain \<rparr>"

subsection \<open>Number elicitations\<close>




lemma num_lt_Fin_iff: "num_lt x (Fin b) = (x = NegInf \<or> (\<exists>a. x = Fin a \<and> a < b))"
  by (cases x) auto
lemma num_lt_Fin_iff2: "num_lt (Fin b) x = (x = PosInf \<or> (\<exists>a. x = Fin a \<and> b < a))"
  by (cases x) auto




section \<open>The fallback bridge (\<^verbatim>\<open>ElicitationWorkaround\<close>)\<close>

text \<open>
  The class keeps a table of pending elicitations and a conversation history. The
  promise that \<^verbatim>\<open>createElicitation\<close> returns is a cell of the list \<open>promises\<close>; the
  \<^verbatim>\<open>resolve\<close> and \<^verbatim>\<open>reject\<close> closures of a pending entry are the index of its cell. A
  cell is settled once: settling a settled cell changes nothing. The timer that
  \<^verbatim>\<open>setTimeout\<close> arms is an entry of \<open>timers\<close> until it fires; the passing of time is
  not modelled, a timer may fire at any moment.
\<close>

datatype settlement = Unsettled | Resolved jsval | Rejected string

record pending =
  pe_elicitation :: elicitation
  pe_waiter :: nat
  pe_context :: "(string \<times> jsval) list option"

record historyEntry =
  he_id :: string
  he_type :: string
  he_prompt :: string
  he_response :: "jsval option"
  he_timestamp :: int

record workaround =
  pendingElicitations :: "(string \<times> pending) list"
  conversationHistory :: "historyEntry list"
  promises :: "settlement list"
  timers :: "(string \<times> nat) list"


definition settle :: "nat \<Rightarrow> settlement \<Rightarrow> settlement list \<Rightarrow> settlement list" where
  "settle w v ps = (if w < length ps \<and> ps ! w = Unsettled then ps[w := v] else ps)"

text \<open>The private \<^verbatim>\<open>validateResponse\<close> of the class: \<^verbatim>\<open>{ valid, error? }\<close>.\<close>

record validation =
  valid :: bool
  error :: "string option"

definition workaround_validateResponse :: "host \<Rightarrow> jsval \<Rightarrow> elicitation \<Rightarrow> validation" where
  "workaround_validateResponse h response e =
     (case e_type e of
        EText \<Rightarrow>
          (case response of
             JStr s \<Rightarrow>
               (case e_pattern e of
                  None \<Rightarrow> \<lparr> valid = True, error = None \<rparr>
                | Some p \<Rightarrow>
                    if p \<noteq> [] \<and> \<not> regexTest h p s
                    then \<lparr> valid = False,
                           error = Some (''Response does not match pattern: '' @ p) \<rparr>
                    else \<lparr> valid = True, error = None \<rparr>)
           | _ \<Rightarrow> \<lparr> valid = False, error = Some ''Response must be a string'' \<rparr>)
      | ENumber \<Rightarrow>
          (let num = toNumber h response in
           if num = NaN
           then \<lparr> valid = False, error = Some ''Response must be a number'' \<rparr>
           else if (case e_min e of None \<Rightarrow> False | Some m \<Rightarrow> num_lt num m)
           then \<lparr> valid = False,
                  error = Some (''Response must be >= '' @ numberToString h (the (e_min e))) \<rparr>
           else if (case e_max e of None \<Rightarrow> False | Some m \<Rightarrow> num_gt num m)
           then \<lparr> valid = False,
                  error = Some (''Response must be <= '' @ numberToString h (the (e_max e))) \<rparr>
           else \<lparr> valid = True, error = None \<rparr>)
      | EConfirm \<Rightarrow>
          (let normalizedResponse = toLowerCase (toStr h response) in
           if normalizedResponse \<notin> set [''yes'', ''no'', ''y'', ''n'', ''true'', ''false'']
           then \<lparr> valid = False, error = Some ''Response must be yes/no'' \<rparr>
           else \<lparr> valid = True, error = None \<rparr>)
      | ESelect \<Rightarrow>
          (if \<not> optionsInclude e (toStr h response)
           then (let index = num_sub (toNumber h response) (Fin 1) in
                 if index = NaN \<or> num_lt index (Fin 0)
                    \<or> num_ge index (Fin (of_nat (optionsLength e)))
                 then \<lparr> valid = False,
                        error = Some (''Response must be one of: '' @ optionsJoined e) \<rparr>
                 else \<lparr> valid = True, error = None \<rparr>)
           else \<lparr> valid = True, error = None \<rparr>))"

text \<open>The private \<^verbatim>\<open>transformResponse\<close> of the class.\<close>

definition workaround_transformResponse :: "host \<Rightarrow> jsval \<Rightarrow> elicitation \<Rightarrow> jsval" where
  "workaround_transformResponse h response e =
     (case e_type e of
        ENumber \<Rightarrow> JNum (toNumber h response)
      | EConfirm \<Rightarrow>
          (let normalized = toLowerCase (toStr h response) in
           JBool (normalized = ''yes'' \<or> normalized = ''y'' \<or> normalized = ''true''))
      | ESelect \<Rightarrow>
          (let index = num_sub (toNumber h response) (Fin 1) in
           case (index, e_options e) of
             (Fin i, Some os) \<Rightarrow>
               if 0 \<le> i \<and> i < of_nat (length os) then optionAt os i else response
           | _ \<Rightarrow> response)
      | EText \<Rightarrow> response)"

definition getElicitationInstructions :: "host \<Rightarrow> elicitation \<Rightarrow> string" where
  "getElicitationInstructions h e =
     joinWith [CHR 0x0A]
       ([''Please provide a '' @ typeName (e_type e) @ '' response.'']
        @ (case e_type e of
             ESelect \<Rightarrow> [''Choose one of the following options: '' @ optionsJoined e]
           | EConfirm \<Rightarrow> [''Respond with '' @ [CHR 0x22] @ ''yes'' @ [CHR 0x22] @ '' or ''
                          @ [CHR 0x22] @ ''no'' @ [CHR 0x22]]
           | ENumber \<Rightarrow>
               (case e_min e of None \<Rightarrow> [] | Some m \<Rightarrow> [''Minimum value: '' @ numberToString h m])
               @ (case e_max e of None \<Rightarrow> [] | Some m \<Rightarrow> [''Maximum value: '' @ numberToString h m])
           | EText \<Rightarrow>
               (case e_pattern e of
                  None \<Rightarrow> []
                | Some p \<Rightarrow> if p \<noteq> [] then [''Must match pattern: '' @ p] else []))
        @ (if e_required e \<noteq> Some False then [''This response is required.''] else []))"

text \<open>
  \<^verbatim>\<open>createElicitation\<close>. The identifier is built from the clock and a random number;
  both are inputs here (\<open>eid\<close> and \<open>now\<close>). The result is the new promise.
\<close>

definition createElicitation ::
  "string \<Rightarrow> int \<Rightarrow> elicitation \<Rightarrow> (string \<times> jsval) list option \<Rightarrow> workaround
     \<Rightarrow> nat \<times> workaround" where
  "createElicitation eid now e ctx s =
     (let w = length (promises s) in
      (w, s \<lparr> pendingElicitations :=
                 AList.update eid \<lparr> pe_elicitation = e, pe_waiter = w, pe_context = ctx \<rparr>
                   (pendingElicitations s),
               conversationHistory :=
                 conversationHistory s
                 @ [\<lparr> he_id = eid, he_type = typeName (e_type e), he_prompt = e_prompt e,
                      he_response = None, he_timestamp = now \<rparr>],
               promises := promises s @ [Unsettled],
               timers := timers s @ [(eid, w)] \<rparr>))"

text \<open>The callback of the timer armed by \<^verbatim>\<open>createElicitation\<close> for \<open>eid\<close> and the promise \<open>w\<close>.\<close>

definition elicitationTimeout :: "string \<Rightarrow> nat \<Rightarrow> workaround \<Rightarrow> workaround" where
  "elicitationTimeout eid w s =
     (if map_of (pendingElicitations s) eid \<noteq> None
      then s \<lparr> pendingElicitations := AList.delete eid (pendingElicitations s),
               promises := settle w (Rejected ''Elicitation timeout'') (promises s) \<rparr>
      else s)"

text \<open>\<^verbatim>\<open>historyEntry = conversationHistory.find(h => h.id === id)\<close>, then its response is set.\<close>

fun setResponse :: "string \<Rightarrow> jsval \<Rightarrow> historyEntry list \<Rightarrow> historyEntry list" where
  "setResponse eid v [] = []"
| "setResponse eid v (e # es) =
     (if he_id e = eid then e \<lparr> he_response := Some v \<rparr> # es else e # setResponse eid v es)"

text \<open>
  \<^verbatim>\<open>handleResponse\<close>: \<open>Inl\<close> is the message of the \<^verbatim>\<open>Error\<close> thrown, \<open>Inr\<close> the text of the
  content returned.
\<close>

definition handleResponse ::
  "host \<Rightarrow> string \<Rightarrow> jsval \<Rightarrow> workaround \<Rightarrow> (string + string) \<times> workaround" where
  "handleResponse h eid response s =
     (case map_of (pendingElicitations s) eid of
        None \<Rightarrow> (Inl (''Elicitation '' @ eid @ '' not found''), s)
      | Some pending \<Rightarrow>
          (let validation = workaround_validateResponse h response (pe_elicitation pending) in
           if \<not> valid validation
           then (Inr (''Invalid response: ''
                      @ (case error validation of None \<Rightarrow> ''undefined'' | Some m \<Rightarrow> m)
                      @ [CHR 0x0A, CHR 0x0A]
                      @ getElicitationInstructions h (pe_elicitation pending)), s)
           else
             (let transformedResponse =
                    workaround_transformResponse h response (pe_elicitation pending)
              in (Inr (''Response accepted: '' @ jsonStringify h transformedResponse),
                  s \<lparr> conversationHistory :=
                         setResponse eid transformedResponse (conversationHistory s),
                       promises :=
                         settle (pe_waiter pending) (Resolved transformedResponse) (promises s),
                       pendingElicitations := AList.delete eid (pendingElicitations s) \<rparr>))))"

text \<open>
  What can happen to the bridge: an elicitation is created, a response is submitted
  through \<^verbatim>\<open>respond_to_elicitation\<close>, or an armed timer fires (once).
\<close>

datatype event =
    Create string int elicitation "(string \<times> jsval) list option"
  | Respond string jsval
  | Timeout string nat

fun applyEvent :: "host \<Rightarrow> workaround \<Rightarrow> event \<Rightarrow> workaround" where
  "applyEvent h s (Create eid now e ctx) = snd (createElicitation eid now e ctx s)"
| "applyEvent h s (Respond eid response) = snd (handleResponse h eid response s)"
| "applyEvent h s (Timeout eid w) =
     (if (eid, w) \<in> set (timers s)
      then elicitationTimeout eid w (s \<lparr> timers := remove1 (eid, w) (timers s) \<rparr>)
      else s)"

definition run :: "host \<Rightarrow> event list \<Rightarrow> workaround \<Rightarrow> workaround" where
  "run h es s = foldl (applyEvent h) s es"























lemma elicitationTimeout_absent:
  "map_of (pendingElicitations s) eid = None \<Longrightarrow> elicitationTimeout eid w s = s"
  by (simp add: elicitationTimeout_def)


































section \<open>Workflows\<close>

text \<open>
  \<^verbatim>\<open>SamplingSchema\<close>, \<^verbatim>\<open>StateSchema\<close> and \<^verbatim>\<open>WorkflowSchema\<close> of \<^verbatim>\<open>adf-schema.ts\<close>. Every
  optional field is an option; a record of the schema (\<^verbatim>\<open>z.record\<close>) is the list of
  its entries in the order \<^verbatim>\<open>Object.entries\<close> gives them, with keys that differ. The
  field \<^verbatim>\<open>context\<close> of a state is never read by the executor and is left out.
\<close>

datatype stateType =
  TElicitation | TSampling | TResponse | TTool | TConditional | TParallel | TLoop

record sampling =
  sp_prompt :: string
  sp_model :: "string option"
  sp_temperature :: "jsnum option"
  sp_max_tokens :: "jsnum option"
  sp_top_p :: "jsnum option"
  sp_system :: "string option"
  sp_context :: "string list option"

record state =
  type :: stateType
  prompt :: "string option"
  elicitation :: "elicitation option"
  sampling :: "sampling option"
  transitions :: "(string \<times> string) list option"
  template :: "string option"
  tool :: "string option"
  parameters :: "(string \<times> jsval) list option"
  handler :: "string option"
  condition :: "string option"
  onTrue :: "string option"
  onFalse :: "string option"
  branches :: "string list option"
  body :: "string option"
  maxIterations :: "jsnum option"

record workflow =
  initial :: string
  states :: "(string \<times> state) list"
  maxSteps :: "jsnum option"

subsection \<open>\<^verbatim>\<open>validateWorkflow\<close>\<close>

datatype logLevel = LDebug | LInfo | LWarn | LError

type_synonym logEntry = "logLevel \<times> string"

text \<open>An exception thrown by the language itself, which the effect runtime turns into a defect.\<close>

datatype defect = TypeError string

text \<open>
  The loop over \<^verbatim>\<open>Object.entries(state.transitions)\<close>: the first entry whose target is a
  non-empty string that names no state.
\<close>

fun findInvalidTarget :: "workflow \<Rightarrow> (string \<times> string) list \<Rightarrow> (string \<times> string) option" where
  "findInvalidTarget flow [] = None"
| "findInvalidTarget flow ((trigger, targetState) # ts) =
     (if targetState \<noteq> [] \<and> map_of (states flow) targetState = None
      then Some (trigger, targetState)
      else findInvalidTarget flow ts)"

text \<open>The loop over \<^verbatim>\<open>Object.entries(workflow.states)\<close> around it.\<close>

fun findInvalidTransition ::
  "workflow \<Rightarrow> (string \<times> state) list \<Rightarrow> (string \<times> string \<times> string) option" where
  "findInvalidTransition flow [] = None"
| "findInvalidTransition flow ((stateName, st) # rest) =
     (case transitions st of
        None \<Rightarrow> findInvalidTransition flow rest
      | Some ts \<Rightarrow>
          (case findInvalidTarget flow ts of
             Some (trigger, targetState) \<Rightarrow> Some (stateName, trigger, targetState)
           | None \<Rightarrow> findInvalidTransition flow rest))"

text \<open>
  The reachability sweep. \<^verbatim>\<open>reachableStates\<close> is a \<^verbatim>\<open>Set\<close>: the list of its members in
  insertion order. The inner loop adds the targets of one state.
\<close>

fun addTargets :: "string list \<Rightarrow> string list \<times> bool \<Rightarrow> string list \<times> bool" where
  "addTargets [] rc = rc"
| "addTargets (targetState # ts) (reachableStates, changed) =
     (if targetState \<noteq> [] \<and> targetState \<notin> set reachableStates
      then addTargets ts (reachableStates @ [targetState], True)
      else addTargets ts (reachableStates, changed))"

text \<open>Every target that some state declares: the names the sweep can ever add.\<close>

definition allTargets :: "workflow \<Rightarrow> string list" where
  "allTargets flow =
     concat (map (\<lambda>(stateName, st). case transitions st of None \<Rightarrow> [] | Some ts \<Rightarrow> map snd ts)
               (states flow))"

lemma addTargets_measure:
  "set ts \<subseteq> T \<Longrightarrow> finite T \<Longrightarrow>
   card (T - set (fst (addTargets ts (reach, c)))) + length (fst (addTargets ts (reach, c)))
     = card (T - set reach) + length reach"
proof (induction ts arbitrary: reach c)
  case Nil
  then show ?case by simp
next
  case (Cons t ts)
  show ?case
  proof (cases "t \<noteq> [] \<and> t \<notin> set reach")
    case False
    then show ?thesis using Cons by auto
  next
    case True
    then have "t \<in> T - set reach" using Cons.prems by simp
    then have "card (T - set reach) = Suc (card (T - set reach - {t}))"
      using Cons.prems(2) by (metis card.remove finite_Diff)
    moreover have "T - set (reach @ [t]) = T - set reach - {t}" by auto
    ultimately show ?thesis using Cons True by simp
  qed
qed

lemma addTargets_length: "length reach \<le> length (fst (addTargets ts (reach, c)))"
proof (induction ts arbitrary: reach c)
  case Nil
  then show ?case by simp
next
  case (Cons t ts)
  have "length (reach @ [t]) \<le> length (fst (addTargets ts (reach @ [t], True)))"
    by (rule Cons.IH)
  then show ?case using Cons.IH [of reach c] by simp
qed

lemma targets_of_state:
  "map_of (states flow) n = Some st \<Longrightarrow> transitions st = Some ts \<Longrightarrow>
   set (map snd ts) \<subseteq> set (allTargets flow)"
  by (force simp: allTargets_def dest!: map_of_SomeD)

text \<open>
  One pass of \<^verbatim>\<open>for (const stateName of reachableStates)\<close>, from the member at position
  \<open>i\<close>: the iteration also visits the members that the pass itself adds. A member that
  names no state makes \<^verbatim>\<open>state.transitions\<close> throw.
\<close>

function sweepFrom ::
  "workflow \<Rightarrow> nat \<Rightarrow> string list \<times> bool \<Rightarrow> defect + (string list \<times> bool)" where
  "sweepFrom flow i (reachableStates, changed) =
     (if i < length reachableStates
      then (case map_of (states flow) (reachableStates ! i) of
              None \<Rightarrow> Inl (TypeError ''Cannot read properties of undefined (reading transitions)'')
            | Some st \<Rightarrow>
                (case transitions st of
                   None \<Rightarrow> sweepFrom flow (Suc i) (reachableStates, changed)
                 | Some ts \<Rightarrow>
                     sweepFrom flow (Suc i) (addTargets (map snd ts) (reachableStates, changed))))
      else Inr (reachableStates, changed))"
  by pat_completeness auto
termination
proof (relation "measure (\<lambda>(flow, i, rc). card (set (allTargets flow) - set (fst rc)) + (length (fst rc) - i))")
  show "wf (measure (\<lambda>(flow, i, rc). card (set (allTargets flow) - set (fst rc)) + (length (fst rc) - i)))"
    by simp
next
  fix flow :: workflow and i :: nat and reachableStates :: "string list" and changed :: bool
  assume "i < length reachableStates"
  then show "((flow, Suc i, reachableStates, changed), flow, i, reachableStates, changed)
      \<in> measure (\<lambda>(flow, i, rc). card (set (allTargets flow) - set (fst rc)) + (length (fst rc) - i))"
    by simp
next
  fix flow :: workflow and i :: nat and reachableStates :: "string list" and changed :: bool
    and st :: state and ts :: "(string \<times> string) list"
  assume i: "i < length reachableStates"
    and st: "map_of (states flow) (reachableStates ! i) = Some st"
    and ts: "transitions st = Some ts"
  have "card (set (allTargets flow) - set (fst (addTargets (map snd ts) (reachableStates, changed))))
          + length (fst (addTargets (map snd ts) (reachableStates, changed)))
        = card (set (allTargets flow) - set reachableStates) + length reachableStates"
    using targets_of_state [OF st ts] by (intro addTargets_measure) simp_all
  then show "((flow, Suc i, addTargets (map snd ts) (reachableStates, changed)),
              flow, i, reachableStates, changed)
      \<in> measure (\<lambda>(flow, i, rc). card (set (allTargets flow) - set (fst rc)) + (length (fst rc) - i))"
    using i addTargets_length [of reachableStates "map snd ts" changed] by simp
qed

declare sweepFrom.simps [simp del]

lemma addTargets_changed:
  "snd (addTargets ts (reach, c)) = (c \<or> length reach < length (fst (addTargets ts (reach, c))))"
proof (induction ts arbitrary: reach c)
  case Nil
  then show ?case by simp
next
  case (Cons t ts)
  show ?case
  proof (cases "t \<noteq> [] \<and> t \<notin> set reach")
    case False
    then show ?thesis using Cons.IH [of reach c] by auto
  next
    case True
    have "length (reach @ [t]) \<le> length (fst (addTargets ts (reach @ [t], True)))"
      by (rule addTargets_length)
    then show ?thesis using True Cons.IH [of "reach @ [t]" True] by auto
  qed
qed

lemma sweepFrom_inv:
  "sweepFrom flow i (reach, c) = Inr (reach', c') \<Longrightarrow>
   card (set (allTargets flow) - set reach') + length reach'
     = card (set (allTargets flow) - set reach) + length reach
   \<and> length reach \<le> length reach'
   \<and> c' = (c \<or> length reach < length reach')"
proof (induction flow i "(reach, c)" arbitrary: reach c rule: sweepFrom.induct)
  case (1 flow i reach c)
  note unfold = sweepFrom.simps [of flow i reach c]
  show ?case
  proof (cases "i < length reach")
    case False
    then show ?thesis using "1.prems" unfold by simp
  next
    case True
    show ?thesis
    proof (cases "map_of (states flow) (reach ! i)")
      case None
      then show ?thesis using "1.prems" True unfold by simp
    next
      case (Some st)
      note st = Some
      show ?thesis
      proof (cases "transitions st")
        case None
        have "sweepFrom flow (Suc i) (reach, c) = Inr (reach', c')"
          using "1.prems" True st None unfold by simp
        from "1.hyps"(1) [OF True st None this] show ?thesis .
      next
        case (Some ts)
        obtain r2 c2 where a: "addTargets (map snd ts) (reach, c) = (r2, c2)"
          by (cases "addTargets (map snd ts) (reach, c)")
        have run: "sweepFrom flow (Suc i) (r2, c2) = Inr (reach', c')"
          using "1.prems" True st Some a unfold by simp
        note ih = "1.hyps"(2) [OF True st Some a run]
        have m: "card (set (allTargets flow) - set r2) + length r2
                   = card (set (allTargets flow) - set reach) + length reach"
          using addTargets_measure [of "map snd ts" "set (allTargets flow)" reach c]
            targets_of_state [OF st Some] a by simp
        have l: "length reach \<le> length r2"
          using addTargets_length [of reach "map snd ts" c] a by simp
        have ch: "c2 = (c \<or> length reach < length r2)"
          using addTargets_changed [of "map snd ts" reach c] a by simp
        show ?thesis using ih m l ch by auto
      qed
    qed
  qed
qed

text \<open>\<^verbatim>\<open>while (changed)\<close>: passes are repeated until one adds nothing.\<close>

function sweep :: "workflow \<Rightarrow> string list \<Rightarrow> defect + string list" where
  "sweep flow reachableStates =
     (case sweepFrom flow 0 (reachableStates, False) of
        Inl d \<Rightarrow> Inl d
      | Inr (reachableStates', changed) \<Rightarrow>
          if changed then sweep flow reachableStates' else Inr reachableStates')"
  by pat_completeness auto
termination
proof (relation "measure (\<lambda>(flow, reach). card (set (allTargets flow) - set reach))")
  show "wf (measure (\<lambda>(flow, reach). card (set (allTargets flow) - set reach)))" by simp
next
  fix flow :: workflow and reachableStates :: "string list" and x2 :: "string list \<times> bool"
    and reachableStates' :: "string list" and changed :: bool
  assume "sweepFrom flow 0 (reachableStates, False) = Inr x2" "(reachableStates', changed) = x2" changed
  then have "sweepFrom flow 0 (reachableStates, False) = Inr (reachableStates', True)" by simp
  from sweepFrom_inv [OF this]
  show "((flow, reachableStates'), flow, reachableStates)
          \<in> measure (\<lambda>(flow, reach). card (set (allTargets flow) - set reach))"
    by simp
qed

declare sweep.simps [simp del]

text \<open>
  \<^verbatim>\<open>validateWorkflow\<close>: the messages sent to the logger and the boolean that the effect
  succeeds with.
\<close>

definition validateWorkflow :: "workflow \<Rightarrow> defect + (logEntry list \<times> bool)" where
  "validateWorkflow flow =
     (let started = [(LDebug, ''Validating workflow: '' @ initial flow)] in
      if map_of (states flow) (initial flow) = None
      then Inr (started
                @ [(LError, ''Initial state '' @ [CHR 0x27] @ initial flow @ [CHR 0x27]
                            @ '' not found'')], False)
      else
        (case findInvalidTransition flow (states flow) of
           Some (stateName, trigger, targetState) \<Rightarrow>
             Inr (started
                  @ [(LError, ''Invalid transition from '' @ [CHR 0x27] @ stateName @ [CHR 0x27]
                              @ '' to '' @ [CHR 0x27] @ targetState @ [CHR 0x27]
                              @ '' on trigger '' @ [CHR 0x27] @ trigger @ [CHR 0x27])], False)
         | None \<Rightarrow>
             (case sweep flow [initial flow] of
                Inl d \<Rightarrow> Inl d
              | Inr reachableStates \<Rightarrow>
                  (let unreachableStates =
                         filter (\<lambda>s. s \<notin> set reachableStates) (map fst (states flow))
                   in Inr (started
                           @ (if unreachableStates \<noteq> []
                              then [(LWarn, ''Unreachable states detected: ''
                                            @ joinWith '', '' unreachableStates)]
                              else []), True)))))"

definition blankState :: "stateType \<Rightarrow> state" where
  "blankState t =
     \<lparr> type = t, prompt = None, elicitation = None, sampling = None, transitions = None,
       template = None, tool = None, parameters = None, handler = None, condition = None,
       onTrue = None, onFalse = None, branches = None, body = None, maxIterations = None \<rparr>"





text \<open>The edges the sweep follows: from a state to a non-empty target of its transitions map.\<close>

definition edges :: "workflow \<Rightarrow> (string \<times> string) set" where
  "edges flow =
     {(a, b). \<exists>st ts trigger. map_of (states flow) a = Some st \<and> transitions st = Some ts
                \<and> (trigger, b) \<in> set ts \<and> b \<noteq> []}"
















text \<open>The states that no path of transition edges reaches from the initial state.\<close>

definition unreachableStates :: "workflow \<Rightarrow> string list" where
  "unreachableStates flow =
     filter (\<lambda>s. (initial flow, s) \<notin> (edges flow)\<^sup>*) (map fst (states flow))"










section \<open>The workflow executor\<close>

subsection \<open>\<^verbatim>\<open>evaluateCondition\<close>\<close>

definition isWordChar :: "char \<Rightarrow> bool" where
  "isWordChar c =
     (let n = (of_char c :: nat) in
      (48 \<le> n \<and> n \<le> 57) \<or> (65 \<le> n \<and> n \<le> 90) \<or> (97 \<le> n \<and> n \<le> 122) \<or> n = 95)"

definition isLineTerminator :: "char \<Rightarrow> bool" where
  "isLineTerminator c = ((of_char c :: nat) \<in> {10, 13})"

text \<open>
  The tail \<^verbatim>\<open>\s*(.+)$\<close> of the comparison pattern: white space is skipped and the rest,
  which must not hold a line terminator, is the value; if only white space is left, its
  last character is the value.
\<close>

definition matchValue :: "string \<Rightarrow> string option" where
  "matchValue rest =
     (let v = dropWhile isStrWhiteSpace rest in
      if v \<noteq> [] then (if list_ex isLineTerminator v then None else Some v)
      else if rest \<noteq> [] \<and> \<not> isLineTerminator (last rest) then Some [last rest]
      else None)"

text \<open>
  The alternatives \<^verbatim>\<open>(==|!=|>|<|>=|<=)\<close> in their order: the first one that the text
  starts with and after which a value can be matched.
\<close>

fun matchOperator :: "string list \<Rightarrow> string \<Rightarrow> (string \<times> string) option" where
  "matchOperator [] rest = None"
| "matchOperator (operator # ops) rest =
     (if isPrefixOf operator rest
      then (case matchValue (drop (length operator) rest) of
              Some v \<Rightarrow> Some (operator, v)
            | None \<Rightarrow> matchOperator ops rest)
      else matchOperator ops rest)"

text \<open>\<^verbatim>\<open>condition.match(/^(\w+)\s*(==|!=|>|<|>=|<=)\s*(.+)$/)\<close>: the three groups.\<close>

definition comparisonMatch :: "string \<Rightarrow> (string \<times> string \<times> string) option" where
  "comparisonMatch cond =
     (let varName = takeWhile isWordChar cond;
          rest = dropWhile isStrWhiteSpace (dropWhile isWordChar cond)
      in if varName = [] then None
         else (case matchOperator [''=='', ''!='', ''>'', ''<'', ''>='', ''<=''] rest of
                 None \<Rightarrow> None
               | Some (operator, v) \<Rightarrow> Some (varName, operator, v)))"

text \<open>\<^verbatim>\<open>variables[name]\<close>: \<^verbatim>\<open>undefined\<close> for a name that is not a property.\<close>

definition getVariable :: "(string \<times> jsval) list \<Rightarrow> string \<Rightarrow> jsval" where
  "getVariable vars name = (case map_of vars name of None \<Rightarrow> JUndefined | Some v \<Rightarrow> v)"

text \<open>An array or an object compared with a string or a number is first turned into a string.\<close>

fun toPrimitive :: "host \<Rightarrow> jsval \<Rightarrow> jsval" where
  "toPrimitive h (JArr xs) = JStr (toStr h (JArr xs))"
| "toPrimitive h (JObj ps) = JStr (toStr h (JObj ps))"
| "toPrimitive h v = v"

text \<open>\<^verbatim>\<open>x == y\<close> for a right-hand side that is a string or a number.\<close>

definition looseEq :: "host \<Rightarrow> jsval \<Rightarrow> jsval \<Rightarrow> bool" where
  "looseEq h x y =
     (case (toPrimitive h x, y) of
        (JNum a, JNum b) \<Rightarrow> num_eq a b
      | (JNum a, JStr b) \<Rightarrow> num_eq a (stringToNumber b)
      | (JStr a, JStr b) \<Rightarrow> a = b
      | (JStr a, JNum b) \<Rightarrow> num_eq (stringToNumber a) b
      | (JBool a, JNum b) \<Rightarrow> num_eq (Fin (if a then 1 else 0)) b
      | (JBool a, JStr b) \<Rightarrow> num_eq (Fin (if a then 1 else 0)) (stringToNumber b)
      | _ \<Rightarrow> False)"

text \<open>Strings are compared by code units.\<close>

fun string_lt :: "string \<Rightarrow> string \<Rightarrow> bool" where
  "string_lt s [] = False"
| "string_lt [] (y # ys) = True"
| "string_lt (x # xs) (y # ys) =
     ((of_char x :: nat) < of_char y \<or> (x = y \<and> string_lt xs ys))"

text \<open>\<^verbatim>\<open>x < y\<close> and \<^verbatim>\<open>x <= y\<close>: two strings as strings, anything else as numbers.\<close>

definition lessThan :: "host \<Rightarrow> jsval \<Rightarrow> jsval \<Rightarrow> bool" where
  "lessThan h x y =
     (case (toPrimitive h x, toPrimitive h y) of
        (JStr a, JStr b) \<Rightarrow> string_lt a b
      | (px, py) \<Rightarrow> num_lt (toNumber h px) (toNumber h py))"

definition lessEq :: "host \<Rightarrow> jsval \<Rightarrow> jsval \<Rightarrow> bool" where
  "lessEq h x y =
     (case (toPrimitive h x, toPrimitive h y) of
        (JStr a, JStr b) \<Rightarrow> \<not> string_lt b a
      | (px, py) \<Rightarrow> num_le (toNumber h px) (toNumber h py))"

definition evaluateCondition :: "host \<Rightarrow> string \<Rightarrow> (string \<times> jsval) list \<Rightarrow> bool" where
  "evaluateCondition h cond vars =
     (if getVariable vars cond \<noteq> JUndefined then truthy (getVariable vars cond)
      else (case comparisonMatch cond of
              None \<Rightarrow> False
            | Some (varName, operator, v) \<Rightarrow>
                (let varValue = getVariable vars varName;
                     compareValue =
                       (if v \<noteq> [] \<and> hd v = CHR 0x22 \<and> last v = CHR 0x22
                        then JStr (butlast (tl v))
                        else if stringToNumber v = NaN then JStr v
                        else JNum (stringToNumber v))
                 in if operator = ''=='' then looseEq h varValue compareValue
                    else if operator = ''!='' then \<not> looseEq h varValue compareValue
                    else if operator = ''>'' then lessThan h compareValue varValue
                    else if operator = ''<'' then lessThan h varValue compareValue
                    else if operator = ''>='' then lessEq h compareValue varValue
                    else if operator = ''<='' then lessEq h varValue compareValue
                    else False)))"

subsection \<open>\<^verbatim>\<open>matchesPattern\<close> and the choice of the next state\<close>

text \<open>\<^verbatim>\<open>pattern.replace(/[.+?^${}()|[\]\\]/g, '\\$&').replace(/\*/g, '.*')\<close>.\<close>

definition wildcardSource :: "string \<Rightarrow> string" where
  "wildcardSource pattern =
     concat (map (\<lambda>c. if c = CHR ''*'' then ''.*''
                        else if c \<in> set (''.+?^${}()|[]'' @ [CHR 0x5C]) then [CHR 0x5C, c]
                        else [c]) pattern)"

definition matchesPattern :: "host \<Rightarrow> jsval \<Rightarrow> string \<Rightarrow> bool" where
  "matchesPattern h v pattern =
     (if pattern \<noteq> [] \<and> hd pattern = CHR ''/'' \<and> last pattern = CHR ''/''
      then regexTest h (butlast (tl pattern)) (toStr h v)
      else if CHR ''*'' \<in> set pattern
      then regexTest h (''^'' @ wildcardSource pattern @ ''$'') (toStr h v)
      else toStr h v = pattern)"

text \<open>A string that is present and not empty: what \<^verbatim>\<open>if (s)\<close> tests.\<close>

fun declared :: "string option \<Rightarrow> bool" where
  "declared None = False"
| "declared (Some s) = (s \<noteq> [])"

text \<open>The loop over the entries of the transitions map that looks for a matching pattern.\<close>

fun matchFirstPattern :: "host \<Rightarrow> jsval \<Rightarrow> (string \<times> string) list \<Rightarrow> string option" where
  "matchFirstPattern h result [] = None"
| "matchFirstPattern h result ((pattern, targetState) # ts) =
     (if pattern \<noteq> ''default'' \<and> matchesPattern h result pattern then Some targetState
      else matchFirstPattern h result ts)"

text \<open>
  ``Determine next state from transitions'', the last block of \<^verbatim>\<open>executeState\<close>:
  \<open>nextState\<close> is what the kind of the state has set, if anything.
\<close>

definition determineNextState ::
  "host \<Rightarrow> (string \<times> string) list option \<Rightarrow> jsval \<Rightarrow> string option \<Rightarrow> string option" where
  "determineNextState h transitionMap result nextState =
     (if declared nextState then nextState
      else (case transitionMap of
              None \<Rightarrow> nextState
            | Some ts \<Rightarrow>
                if declared (map_of ts ''default'') then map_of ts ''default''
                else if truthy result \<and> declared (map_of ts (toStr h result))
                then map_of ts (toStr h result)
                else (case matchFirstPattern h result ts of
                        Some targetState \<Rightarrow> Some targetState
                      | None \<Rightarrow> nextState)))"

subsection \<open>Contexts, failures and collaborators\<close>

type_synonym variables = "(string \<times> jsval) list"

record historyItem =
  h_state :: string
  h_timestamp :: int
  h_variables :: variables

text \<open>
  \<^verbatim>\<open>WorkflowContext\<close>. There is one \<^verbatim>\<open>variables\<close> object per run: \<^verbatim>\<open>executeState\<close> writes
  into it in place, and every context built by a spread (\<^verbatim>\<open>{ ...context, currentState }\<close>)
  shares it. The model threads its content through every call, also through a call that
  fails.
\<close>

record workflowContext =
  currentState :: string
  variables :: variables
  history :: "historyItem list"

text \<open>
  The typed failures of the effects, and the cause an effect ends with: a failure, which
  \<^verbatim>\<open>Effect.retry\<close> retries, or a defect (an exception thrown), which it does not.
\<close>

datatype failure =
    StateTransitionError string string string
  | TimeoutError string
  | WorkflowError string string string
  | ServiceError string

datatype cause = Fail failure | Die defect

type_synonym ('a, 'w) outcome = "(cause + 'a) \<times> variables \<times> 'w"

text \<open>
  The collaborators: the elicitation service, the sampling service, the handler loader
  with the handlers it loads, and the clock. What they answer is not fixed by the
  executor; they act on a world \<open>'w\<close> that the executor only passes along, so that a
  collaborator may answer differently at each call. Deadlines are not modelled: the
  timeout of a step shows only as a failure that a collaborator may return.
\<close>

record elicitationResult =
  er_value :: jsval
  er_isValid :: bool

record samplingResult =
  sr_content :: string

type_synonym 'w toolHandler = "(string \<times> jsval) list \<Rightarrow> 'w \<Rightarrow> (cause + jsval) \<times> 'w"

record 'w services =
  requestElicitation :: "elicitation \<Rightarrow> variables \<Rightarrow> 'w \<Rightarrow> (cause + elicitationResult) \<times> 'w"
  createCompletion :: "sampling \<Rightarrow> variables \<Rightarrow> 'w \<Rightarrow> (cause + samplingResult) \<times> 'w"
  loadToolHandler :: "string \<Rightarrow> 'w \<Rightarrow> (cause + 'w toolHandler) \<times> 'w"
  dateNow :: "'w \<Rightarrow> int"

subsection \<open>\<^verbatim>\<open>executeState\<close>\<close>

text \<open>The \<^verbatim>\<open>response\<close> case: each variable in turn replaces its \<^verbatim>\<open>{key}\<close> tokens.\<close>

definition renderTemplate :: "host \<Rightarrow> string \<Rightarrow> variables \<Rightarrow> string" where
  "renderTemplate h t vars =
     foldl (\<lambda>response (key, v). regexReplaceAll h (''{'' @ key @ ''}'') response (toStr h v))
       t vars"

definition executeElicitation ::
  "'w services \<Rightarrow> state \<Rightarrow> string \<Rightarrow> variables \<Rightarrow> 'w \<Rightarrow> (jsval \<times> string option, 'w) outcome" where
  "executeElicitation svc st cur vars w =
     (case elicitation st of
        None \<Rightarrow> (Inr (JNull, None), vars, w)
      | Some e \<Rightarrow>
          (case requestElicitation svc e vars w of
             (Inl c, w') \<Rightarrow> (Inl c, vars, w')
           | (Inr elicitationResult, w') \<Rightarrow>
               (Inr (er_value elicitationResult, None),
                AList.update (cur @ ''_response'') (er_value elicitationResult) vars, w')))"

definition promptOnly :: "string \<Rightarrow> sampling" where
  "promptOnly p =
     \<lparr> sp_prompt = p, sp_model = None, sp_temperature = None, sp_max_tokens = None,
       sp_top_p = None, sp_system = None, sp_context = None \<rparr>"

definition executeSampling ::
  "'w services \<Rightarrow> state \<Rightarrow> string \<Rightarrow> variables \<Rightarrow> 'w \<Rightarrow> (jsval \<times> string option, 'w) outcome" where
  "executeSampling svc st cur vars w =
     (case (case sampling st of
              Some s \<Rightarrow> Some s
            | None \<Rightarrow> if declared (prompt st) then Some (promptOnly (the (prompt st))) else None) of
        None \<Rightarrow> (Inr (JNull, None), vars, w)
      | Some s \<Rightarrow>
          (case createCompletion svc s vars w of
             (Inl c, w') \<Rightarrow> (Inl c, vars, w')
           | (Inr samplingResult, w') \<Rightarrow>
               (Inr (JStr (sr_content samplingResult), None),
                AList.update (cur @ ''_completion'') (JStr (sr_content samplingResult)) vars, w')))"

text \<open>
  ``Replace parameter variables'': for a string parameter every variable overwrites the
  parameter with the original text in which its own token is replaced, so the last
  variable decides.
\<close>

definition substituteParameters :: "host \<Rightarrow> variables \<Rightarrow> (string \<times> jsval) list \<Rightarrow> (string \<times> jsval) list" where
  "substituteParameters h vars params =
     map (\<lambda>(key, v).
            (key, (case v of
                     JStr s \<Rightarrow>
                       foldl (\<lambda>p (varKey, varValue).
                                JStr (regexReplaceAll h (''{'' @ varKey @ ''}'') s (toStr h varValue)))
                         (JStr s) vars
                   | _ \<Rightarrow> v)))
       params"

definition executeTool ::
  "host \<Rightarrow> 'w services \<Rightarrow> state \<Rightarrow> string \<Rightarrow> variables \<Rightarrow> 'w
     \<Rightarrow> (jsval \<times> string option, 'w) outcome" where
  "executeTool h svc st cur vars w =
     (case (tool st, parameters st) of
        (Some t, Some params) \<Rightarrow>
          if t = [] then (Inr (JNull, None), vars, w)
          else
            (case loadToolHandler svc (if declared (handler st) then the (handler st) else t) w of
               (Inl c, w1) \<Rightarrow> (Inl c, vars, w1)
             | (Inr loaded, w1) \<Rightarrow>
                 (case loaded (substituteParameters h vars params) w1 of
                    (Inl c, w2) \<Rightarrow> (Inl c, vars, w2)
                  | (Inr result, w2) \<Rightarrow>
                      (Inr (result, None), AList.update (cur @ ''_result'') result vars, w2)))
      | _ \<Rightarrow> (Inr (JNull, None), vars, w))"

definition executeConditional :: "host \<Rightarrow> state \<Rightarrow> variables \<Rightarrow> jsval \<times> string option" where
  "executeConditional h st vars =
     (if declared (condition st)
      then (let conditionResult = evaluateCondition h (the (condition st)) vars in
            (JBool conditionResult, if conditionResult then onTrue st else onFalse st))
      else (JNull, None))"

text \<open>
  The branches of a \<^verbatim>\<open>parallel\<close> state, each run by \<open>exec\<close> (\<^verbatim>\<open>executeState\<close> itself) on the
  state that the branch names, with the branch as current state and the shared variables.
  \<^verbatim>\<open>Effect.all\<close> runs them concurrently and fails as soon as one fails; the model runs them
  one after the other in the order of the list and stops at the first that fails.
\<close>

fun runBranches ::
  "(state option \<Rightarrow> string \<Rightarrow> variables \<Rightarrow> 'w \<Rightarrow> (jsval \<times> string option, 'w) outcome option)
     \<Rightarrow> workflow \<Rightarrow> string list \<Rightarrow> variables \<Rightarrow> 'w \<Rightarrow> (jsval list, 'w) outcome option" where
  "runBranches exec flow [] vars w = Some (Inr [], vars, w)"
| "runBranches exec flow (branchState # bs) vars w =
     (case exec (map_of (states flow) branchState) branchState vars w of
        None \<Rightarrow> None
      | Some (Inl c, vars1, w1) \<Rightarrow> Some (Inl c, vars1, w1)
      | Some (Inr (r, n), vars1, w1) \<Rightarrow>
          (case runBranches exec flow bs vars1 w1 of
             None \<Rightarrow> None
           | Some (Inl c, vars2, w2) \<Rightarrow> Some (Inl c, vars2, w2)
           | Some (Inr rs, vars2, w2) \<Rightarrow> Some (Inr (r # rs), vars2, w2)))"

text \<open>``Merge branch results into context''.\<close>

definition mergeBranchResults :: "string list \<Rightarrow> jsval list \<Rightarrow> variables \<Rightarrow> variables" where
  "mergeBranchResults bs results vars =
     foldl (\<lambda>vs (branchState, r). AList.update (branchState @ ''_result'') r vs) vars
       (zip bs results)"

text \<open>\<^verbatim>\<open>a || b\<close> on an optional number: \<open>b\<close> when \<open>a\<close> is missing, zero or \<^verbatim>\<open>NaN\<close>.\<close>

definition numberOr :: "jsnum option \<Rightarrow> jsnum \<Rightarrow> jsnum" where
  "numberOr a b = (case a of None \<Rightarrow> b | Some n \<Rightarrow> if n = NaN \<or> n = Fin 0 then b else n)"

text \<open>
  The \<^verbatim>\<open>while\<close> of a \<^verbatim>\<open>loop\<close> state. The first argument bounds the number of iterations
  that the model follows; it is \<open>None\<close> when the bound is used up.
\<close>

fun runLoop ::
  "nat \<Rightarrow> (state option \<Rightarrow> string \<Rightarrow> variables \<Rightarrow> 'w \<Rightarrow> (jsval \<times> string option, 'w) outcome option)
     \<Rightarrow> host \<Rightarrow> workflow \<Rightarrow> string \<Rightarrow> string \<Rightarrow> jsnum \<Rightarrow> nat \<Rightarrow> jsval list \<Rightarrow> variables \<Rightarrow> 'w
     \<Rightarrow> (jsval list, 'w) outcome option" where
  "runLoop 0 exec h flow cond bodyState maxIter iteration results vars w = None"
| "runLoop (Suc k) exec h flow cond bodyState maxIter iteration results vars w =
     (if \<not> num_lt (Fin (of_nat iteration)) maxIter then Some (Inr results, vars, w)
      else if \<not> evaluateCondition h cond
                  (AList.update ''iteration'' (JNum (Fin (of_nat iteration))) vars)
      then Some (Inr results, vars, w)
      else (case exec (map_of (states flow) bodyState) bodyState vars w of
              None \<Rightarrow> None
            | Some (Inl c, vars1, w1) \<Rightarrow> Some (Inl c, vars1, w1)
            | Some (Inr (r, n), vars1, w1) \<Rightarrow>
                runLoop k exec h flow cond bodyState maxIter (Suc iteration) (results @ [r])
                  vars1 w1))"

text \<open>
  \<^verbatim>\<open>executeState(state, context, workflow)\<close>. Of the context only the current state and
  the variables are read. A \<^verbatim>\<open>parallel\<close> or \<^verbatim>\<open>loop\<close> state calls \<^verbatim>\<open>executeState\<close> again,
  and nothing stops a workflow from nesting a state in itself: the first argument
  bounds the depth of the nesting that the model follows, and the result is \<open>None\<close> when
  it is used up. The state is \<open>None\<close> when the name looked up is not a state
  (\<^verbatim>\<open>workflow.states[name]\<close> is \<^verbatim>\<open>undefined\<close>), and reading its type throws. The result
  is the \<^verbatim>\<open>{ result, nextState }\<close> of the source, with the variables as the call leaves
  them. Calls of the logger are left out.
\<close>

fun executeState ::
  "nat \<Rightarrow> host \<Rightarrow> 'w services \<Rightarrow> workflow \<Rightarrow> state option \<Rightarrow> string \<Rightarrow> variables \<Rightarrow> 'w
     \<Rightarrow> (jsval \<times> string option, 'w) outcome option" where
  "executeState 0 h svc flow sto cur vars w = None"
| "executeState (Suc n) h svc flow None cur vars w =
     Some (Inl (Die (TypeError ''Cannot read properties of undefined (reading type)'')), vars, w)"
| "executeState (Suc n) h svc flow (Some st) cur vars w =
     (case (case type st of
              TResponse \<Rightarrow>
                Some (Inr (JStr (renderTemplate h (case template st of None \<Rightarrow> [] | Some t \<Rightarrow> t) vars),
                           None), vars, w)
            | TElicitation \<Rightarrow> Some (executeElicitation svc st cur vars w)
            | TSampling \<Rightarrow> Some (executeSampling svc st cur vars w)
            | TTool \<Rightarrow> Some (executeTool h svc st cur vars w)
            | TConditional \<Rightarrow> Some (Inr (executeConditional h st vars), vars, w)
            | TParallel \<Rightarrow>
                (case branches st of
                   None \<Rightarrow> Some (Inr (JNull, None), vars, w)
                 | Some bs \<Rightarrow>
                     (case runBranches (executeState n h svc flow) flow bs vars w of
                        None \<Rightarrow> None
                      | Some (Inl c, vars1, w1) \<Rightarrow> Some (Inl c, vars1, w1)
                      | Some (Inr results, vars1, w1) \<Rightarrow>
                          Some (Inr (JArr results, None),
                                mergeBranchResults bs results vars1, w1)))
            | TLoop \<Rightarrow>
                (if declared (condition st) \<and> declared (body st)
                 then (case runLoop n (executeState n h svc flow) h flow (the (condition st))
                              (the (body st)) (numberOr (maxIterations st) (Fin 100)) 0 [] vars w of
                         None \<Rightarrow> None
                       | Some (Inl c, vars1, w1) \<Rightarrow> Some (Inl c, vars1, w1)
                       | Some (Inr results, vars1, w1) \<Rightarrow>
                           Some (Inr (JArr results, None),
                                 AList.update (cur @ ''_results'') (JArr results) vars1, w1))
                 else Some (Inr (JNull, None), vars, w)))
      of
        None \<Rightarrow> None
      | Some (Inl c, vars1, w1) \<Rightarrow> Some (Inl c, vars1, w1)
      | Some (Inr (result, nextState), vars1, w1) \<Rightarrow>
          Some (Inr (result, determineNextState h (transitions st) result nextState), vars1, w1))"

declare executeState.simps [simp del]

subsection \<open>\<^verbatim>\<open>step\<close> and \<^verbatim>\<open>execute\<close>\<close>

text \<open>
  \<^verbatim>\<open>step\<close>. The history entry is built after \<^verbatim>\<open>executeState\<close> has run, from the variables
  as that call left them; the new context holds the same variables.
\<close>

definition step ::
  "nat \<Rightarrow> host \<Rightarrow> 'w services \<Rightarrow> workflow \<Rightarrow> workflowContext \<Rightarrow> 'w
     \<Rightarrow> (workflowContext, 'w) outcome option" where
  "step fuel h svc flow ctx w =
     (case map_of (states flow) (currentState ctx) of
        None \<Rightarrow>
          Some (Inl (Fail (StateTransitionError (currentState ctx) ''unknown''
                            (''State '' @ [CHR 0x27] @ currentState ctx @ [CHR 0x27]
                             @ '' not found in workflow''))),
                variables ctx, w)
      | Some st \<Rightarrow>
          (case executeState fuel h svc flow (Some st) (currentState ctx) (variables ctx) w of
             None \<Rightarrow> None
           | Some (Inl c, vars1, w1) \<Rightarrow> Some (Inl c, vars1, w1)
           | Some (Inr (result, nextState), vars1, w1) \<Rightarrow>
               Some (Inr \<lparr> currentState =
                             (if declared nextState then the nextState else currentState ctx),
                           variables = vars1,
                           history =
                             history ctx
                             @ [\<lparr> h_state = currentState ctx, h_timestamp = dateNow svc w1,
                                  h_variables = vars1 \<rparr>] \<rparr>,
                     vars1, w1)))"

text \<open>
  \<^verbatim>\<open>Effect.retry\<close> with \<^verbatim>\<open>Schedule.recurs(2)\<close> around \<^verbatim>\<open>step(workflow, context)\<close>: after a
  failure the same effect runs again, at most twice more, on the same context object,
  whose variables the failed attempt may have changed. The waiting between attempts is
  not modelled.
\<close>

fun retryStep ::
  "nat \<Rightarrow> nat \<Rightarrow> host \<Rightarrow> 'w services \<Rightarrow> workflow \<Rightarrow> workflowContext \<Rightarrow> 'w
     \<Rightarrow> (workflowContext, 'w) outcome option" where
  "retryStep 0 fuel h svc flow ctx w = step fuel h svc flow ctx w"
| "retryStep (Suc retries) fuel h svc flow ctx w =
     (case step fuel h svc flow ctx w of
        None \<Rightarrow> None
      | Some (Inl (Fail f), vars1, w1) \<Rightarrow>
          retryStep retries fuel h svc flow (ctx \<lparr> variables := vars1 \<rparr>) w1
      | Some r \<Rightarrow> Some r)"

text \<open>
  The \<^verbatim>\<open>while (steps < maxSteps)\<close> of \<^verbatim>\<open>execute\<close>. The first argument bounds the number of
  iterations that the model follows and the depth given to each step.
\<close>

fun executeLoop ::
  "nat \<Rightarrow> host \<Rightarrow> 'w services \<Rightarrow> workflow \<Rightarrow> jsnum \<Rightarrow> nat \<Rightarrow> workflowContext \<Rightarrow> 'w
     \<Rightarrow> (workflowContext, 'w) outcome option" where
  "executeLoop 0 h svc flow maxSteps' steps ctx w = None"
| "executeLoop (Suc fuel) h svc flow maxSteps' steps ctx w =
     (if \<not> num_lt (Fin (of_nat steps)) maxSteps' then Some (Inr ctx, variables ctx, w)
      else
        (case map_of (states flow) (currentState ctx) of
           None \<Rightarrow>
             Some (Inl (Die (TypeError ''Cannot read properties of undefined (reading type)'')),
                   variables ctx, w)
         | Some st \<Rightarrow>
             if type st = TResponse \<and> transitions st = None
             then Some (Inr ctx, variables ctx, w)
             else
               (case retryStep 2 fuel h svc flow ctx w of
                  None \<Rightarrow> None
                | Some (Inl c, vars1, w1) \<Rightarrow> Some (Inl c, vars1, w1)
                | Some (Inr ctx1, vars1, w1) \<Rightarrow>
                    if currentState ctx1 = currentState ctx \<and> transitions st = None
                    then Some (Inr ctx1, vars1, w1)
                    else executeLoop fuel h svc flow maxSteps' (Suc steps) ctx1 w1)))"

text \<open>
  \<^verbatim>\<open>execute(workflow, initialContext)\<close>: \<open>initialContext\<close> is \<open>None\<close> when the argument is
  left out.
\<close>

definition execute ::
  "nat \<Rightarrow> host \<Rightarrow> 'w services \<Rightarrow> workflow \<Rightarrow> variables option \<Rightarrow> 'w
     \<Rightarrow> (workflowContext, 'w) outcome option" where
  "execute fuel h svc flow initialContext w =
     (let vars = (case initialContext of None \<Rightarrow> [] | Some v \<Rightarrow> v) in
      case validateWorkflow flow of
        Inl d \<Rightarrow> Some (Inl (Die d), vars, w)
      | Inr (messages, isValid) \<Rightarrow>
          if \<not> isValid
          then Some (Inl (Fail (WorkflowError (initial flow) ''validation''
                                 ''Workflow validation failed'')), vars, w)
          else executeLoop fuel h svc flow (numberOr (maxSteps flow) (Fin 1000)) 0
                 \<lparr> currentState = initial flow, variables = vars, history = [] \<rparr> w)"

subsection \<open>The collaborators of the executor's tests\<close>

text \<open>
  The test layers of \<^verbatim>\<open>workflow-executor.test.ts\<close>: every elicitation is answered with
  \<^verbatim>\<open>test-response\<close>, every completion is \<^verbatim>\<open>Test completion\<close>, every handler returns
  \<^verbatim>\<open>{ result: 'tool-result' }\<close>. The world is the list of the calls made so far; the
  clock stands still.
\<close>

definition testServices :: "string list services" where
  "testServices =
     \<lparr> requestElicitation =
         (\<lambda>e vars w. (Inr \<lparr> er_value = JStr ''test-response'', er_isValid = True \<rparr>,
                       w @ [''requestElicitation''])),
       createCompletion =
         (\<lambda>s vars w. (Inr \<lparr> sr_content = ''Test completion'' \<rparr>, w @ [''createCompletion''])),
       loadToolHandler =
         (\<lambda>name w. (Inr (\<lambda>params w'. (Inr (JObj [(''result'', JStr ''tool-result'')]),
                                        w' @ [''handler''])),
                     w @ [''loadToolHandler''])),
       dateNow = (\<lambda>w. 0) \<rparr>"

definition greetingFlow :: workflow where
  "greetingFlow =
     \<lparr> initial = ''start'',
       states =
         [(''start'', (blankState TResponse)
              \<lparr> template := Some ''Hello {name}'', transitions := Some [(''default'', ''end'')] \<rparr>),
          (''end'', (blankState TResponse) \<lparr> template := Some ''Goodbye {name}'' \<rparr>)],
       maxSteps = None \<rparr>"


definition askFlow :: workflow where
  "askFlow =
     \<lparr> initial = ''ask'',
       states =
         [(''ask'', (blankState TElicitation)
              \<lparr> prompt := Some ''What is your name?'',
                elicitation := Some \<lparr> e_type = EText, e_prompt = ''Enter your name'',
                   e_options = None, e_min = None, e_max = None, e_pattern = None,
                   e_required = None \<rparr>,
                transitions := Some [(''default'', ''greet'')] \<rparr>),
          (''greet'', (blankState TResponse) \<lparr> template := Some ''Hello {ask_response}'' \<rparr>)],
       maxSteps = None \<rparr>"

lemma step_success:
  assumes "step fuel h svc flow ctx w = Some (Inr ctx', vars', w')"
  shows "\<exists>st result nextState.
           map_of (states flow) (currentState ctx) = Some st
           \<and> executeState fuel h svc flow (Some st) (currentState ctx) (variables ctx) w
               = Some (Inr (result, nextState), vars', w')
           \<and> ctx' = \<lparr> currentState =
                         (if declared nextState then the nextState else currentState ctx),
                       variables = vars',
                       history = history ctx
                         @ [\<lparr> h_state = currentState ctx, h_timestamp = dateNow svc w',
                              h_variables = vars' \<rparr>] \<rparr>"
proof (cases "map_of (states flow) (currentState ctx)")
  case None
  then show ?thesis using assms by (simp add: step_def)
next
  case (Some st)
  show ?thesis
  proof (cases "executeState fuel h svc flow (Some st) (currentState ctx) (variables ctx) w")
    case None
    then show ?thesis using assms Some by (simp add: step_def)
  next
    case (Some r)
    obtain res v1 w1 where r: "r = (res, v1, w1)" by (cases r)
    show ?thesis
    proof (cases res)
      case (Inl c)
      then show ?thesis using assms Some r \<open>map_of (states flow) (currentState ctx) = Some st\<close>
        by (simp add: step_def)
    next
      case (Inr rn)
      obtain result nextState where rn: "rn = (result, nextState)" by (cases rn)
      have "ctx' = \<lparr> currentState =
                         (if declared nextState then the nextState else currentState ctx),
                       variables = vars',
                       history = history ctx
                         @ [\<lparr> h_state = currentState ctx, h_timestamp = dateNow svc w',
                              h_variables = vars' \<rparr>] \<rparr>"
        and "v1 = vars'" and "w1 = w'"
        using assms Some r Inr rn \<open>map_of (states flow) (currentState ctx) = Some st\<close>
        by (auto simp: step_def)
      then show ?thesis
        using Some r Inr rn \<open>map_of (states flow) (currentState ctx) = Some st\<close> by blast
    qed
  qed
qed

lemma step_history:
  assumes "step fuel h svc flow ctx w = Some (Inr ctx', vars', w')"
  shows "history ctx' = history ctx
           @ [\<lparr> h_state = currentState ctx, h_timestamp = dateNow svc w', h_variables = vars' \<rparr>]"
    and "variables ctx' = vars'"
  using step_success [OF assms] by auto


text \<open>The states on which every kind but the parallel and the loop does nothing.\<close>

definition idleState :: "state \<Rightarrow> bool" where
  "idleState st =
     ((type st = TElicitation \<and> elicitation st = None)
      \<or> (type st = TSampling \<and> sampling st = None \<and> \<not> declared (prompt st))
      \<or> (type st = TTool \<and> (\<not> declared (tool st) \<or> parameters st = None)))"

lemma executeState_idle:
  assumes "idleState st"
  shows "executeState (Suc n) h svc flow (Some st) cur vars w
           = Some (Inr (JNull, determineNextState h (transitions st) JNull None), vars, w)"
proof -
  from assms consider
      (e) "type st = TElicitation" "elicitation st = None"
    | (s) "type st = TSampling" "sampling st = None" "\<not> declared (prompt st)"
    | (t) "type st = TTool" "\<not> declared (tool st) \<or> parameters st = None"
    by (auto simp: idleState_def)
  then show ?thesis
  proof cases
    case e
    then show ?thesis by (simp add: executeState.simps executeElicitation_def)
  next
    case s
    then show ?thesis by (simp add: executeState.simps executeSampling_def)
  next
    case t
    then have "executeTool h svc st cur vars w = (Inr (JNull, None), vars, w)"
      by (cases "tool st"; cases "parameters st") (auto simp: executeTool_def)
    then show ?thesis using t by (simp add: executeState.simps)
  qed
qed

definition idleFlow :: workflow where
  "idleFlow =
     \<lparr> initial = ''call_tool'',
       states =
         [(''call_tool'', (blankState TTool)
              \<lparr> parameters := Some [(''input'', JStr ''test'')],
                transitions := Some [(''default'', ''done'')] \<rparr>),
          (''done'', (blankState TResponse) \<lparr> template := Some ''Done'' \<rparr>)],
       maxSteps = None \<rparr>"

definition startContext :: "workflow \<Rightarrow> variables \<Rightarrow> workflowContext" where
  "startContext flow vars = \<lparr> currentState = initial flow, variables = vars, history = [] \<rparr>"


text \<open>
  Claim C10. A state of kind elicitation without an elicitation, of kind sampling with
  neither a sampling specification nor a prompt, or of kind tool without a tool name or
  without parameters is executed as a no-op: whatever the collaborators are, the result
  is \<^verbatim>\<open>null\<close>, the variables are returned as they were (no output variable is stored)
  and the world of the collaborators is untouched (none of them ran); \<^const>\<open>step\<close>
  succeeds with the same variables.
\<close>

theorem idle_state_noop:
  "idleState st \<Longrightarrow> map_of (states flow) (currentState ctx) = Some st \<Longrightarrow>
     executeState (Suc n) h svc flow (Some st) (currentState ctx) (variables ctx) w
       = Some (Inr (JNull, determineNextState h (transitions st) JNull None), variables ctx, w)
     \<and> (\<exists>ctx'. step (Suc n) h svc flow ctx w = Some (Inr ctx', variables ctx, w)
                \<and> variables ctx' = variables ctx
                \<and> history ctx' = history ctx
                    @ [\<lparr> h_state = currentState ctx, h_timestamp = dateNow svc w,
                         h_variables = variables ctx \<rparr>])"
proof -
  assume i: "idleState st" and s: "map_of (states flow) (currentState ctx) = Some st"
  note e = executeState_idle [OF i, of n h svc flow "currentState ctx" "variables ctx" w]
  have "\<exists>ctx'. step (Suc n) h svc flow ctx w = Some (Inr ctx', variables ctx, w)
                \<and> variables ctx' = variables ctx
                \<and> history ctx' = history ctx
                    @ [\<lparr> h_state = currentState ctx, h_timestamp = dateNow svc w,
                         h_variables = variables ctx \<rparr>]"
    by (simp add: step_def s e)
  with e show ?thesis by blast
qed

theorem idle_state_noop_witness:
  "idleState ((blankState TTool) \<lparr> parameters := Some [(''input'', JStr ''test'')],
                                    transitions := Some [(''default'', ''done'')] \<rparr>)
   \<and> map_of (states idleFlow) (currentState (startContext idleFlow []))
       = Some ((blankState TTool) \<lparr> parameters := Some [(''input'', JStr ''test'')],
                                     transitions := Some [(''default'', ''done'')] \<rparr>)
   \<and> executeState (Suc 0) literalHost testServices idleFlow
        (Some ((blankState TTool) \<lparr> parameters := Some [(''input'', JStr ''test'')],
                                     transitions := Some [(''default'', ''done'')] \<rparr>))
        ''call_tool'' [] []
       = Some (Inr (JNull, Some ''done''), [], [])"
proof -
  let ?st = "(blankState TTool) \<lparr> parameters := Some [(''input'', JStr ''test'')],
                                   transitions := Some [(''default'', ''done'')] \<rparr>"
  have i: "idleState ?st" by (simp add: idleState_def blankState_def)
  have s: "map_of (states idleFlow) (currentState (startContext idleFlow [])) = Some ?st"
    by (simp add: idleFlow_def startContext_def)
  have c: "currentState (startContext idleFlow []) = ''call_tool''"
    "variables (startContext idleFlow []) = []"
    by (simp_all add: idleFlow_def startContext_def)
  have d: "determineNextState literalHost (transitions ?st) JNull None = Some ''done''"
    by (simp add: determineNextState_def)
  from idle_state_noop [OF i s, of 0 literalHost testServices "[]"]
  have "executeState (Suc 0) literalHost testServices idleFlow (Some ?st) ''call_tool'' [] []
          = Some (Inr (JNull, Some ''done''), [], [])"
    unfolding c d by blast
  with i s show ?thesis by blast
qed

text \<open>
  Claim C5, as the code has it. A successful \<^const>\<open>step\<close> appends exactly one entry to the
  history: its state is the state that was executed, its timestamp the clock after the
  execution, and its snapshot the variables as \<^const>\<open>executeState\<close> left them, which are
  also the variables of the new context. So an output that the state stores appears in its
  own entry: after an elicitation state with a specification the entry holds the key
  \<^verbatim>\<open><id>_response\<close>.
\<close>

theorem step_appends_snapshot_after:
  "step fuel h svc flow ctx w = Some (Inr ctx', vars', w') \<Longrightarrow>
     history ctx' = history ctx
       @ [\<lparr> h_state = currentState ctx, h_timestamp = dateNow svc w', h_variables = vars' \<rparr>]
     \<and> variables ctx' = vars'
     \<and> (\<exists>st result nextState.
           map_of (states flow) (currentState ctx) = Some st
           \<and> executeState fuel h svc flow (Some st) (currentState ctx) (variables ctx) w
               = Some (Inr (result, nextState), vars', w')
           \<and> (type st = TElicitation \<and> elicitation st \<noteq> None \<longrightarrow>
                map_of (h_variables (last (history ctx'))) (currentState ctx @ ''_response'')
                  = Some result))"
proof -
  assume a: "step fuel h svc flow ctx w = Some (Inr ctx', vars', w')"
  from step_success [OF a] obtain st result nextState where
    st: "map_of (states flow) (currentState ctx) = Some st"
    and ex: "executeState fuel h svc flow (Some st) (currentState ctx) (variables ctx) w
               = Some (Inr (result, nextState), vars', w')"
    by blast
  note hist = step_history [OF a]
  have "map_of (h_variables (last (history ctx'))) (currentState ctx @ ''_response'') = Some result"
    if t: "type st = TElicitation" and e: "elicitation st \<noteq> None"
  proof -
    from ex obtain n where fuel: "fuel = Suc n"
      by (cases fuel) (auto simp: executeState.simps)
    from e obtain el where el: "elicitation st = Some el" by blast
    from ex t el have "vars' = AList.update (currentState ctx @ ''_response'') result (variables ctx)"
      unfolding fuel
      by (auto simp: executeState.simps executeElicitation_def split: prod.splits sum.splits)
    then show ?thesis using hist by (simp add: update_conv')
  qed
  with st ex hist show ?thesis by blast
qed

theorem step_appends_snapshot_after_witness:
  "step 1 literalHost testServices askFlow (startContext askFlow []) []
     = Some (Inr \<lparr> currentState = ''greet'',
                   variables = [(''ask_response'', JStr ''test-response'')],
                   history = [\<lparr> h_state = ''ask'', h_timestamp = 0,
                                h_variables = [(''ask_response'', JStr ''test-response'')] \<rparr>] \<rparr>,
             [(''ask_response'', JStr ''test-response'')], [''requestElicitation''])
   \<and> history \<lparr> currentState = ''greet'',
                variables = [(''ask_response'', JStr ''test-response'')],
                history = [\<lparr> h_state = ''ask'', h_timestamp = 0,
                             h_variables = [(''ask_response'', JStr ''test-response'')] \<rparr>] \<rparr>
       = history (startContext askFlow [])
         @ [\<lparr> h_state = currentState (startContext askFlow []),
              h_timestamp = dateNow testServices [''requestElicitation''],
              h_variables = [(''ask_response'', JStr ''test-response'')] \<rparr>]"
proof -
  have s: "step 1 literalHost testServices askFlow (startContext askFlow []) []
     = Some (Inr \<lparr> currentState = ''greet'',
                   variables = [(''ask_response'', JStr ''test-response'')],
                   history = [\<lparr> h_state = ''ask'', h_timestamp = 0,
                                h_variables = [(''ask_response'', JStr ''test-response'')] \<rparr>] \<rparr>,
             [(''ask_response'', JStr ''test-response'')], [''requestElicitation''])"
    by code_simp
  from step_appends_snapshot_after [OF s] s show ?thesis by blast
qed

text \<open>
  Claim C5 as stated fails on the elicitation workflow of the tests: the variables are
  empty before the state \<^verbatim>\<open>ask\<close> executes, and the entry of \<^verbatim>\<open>ask\<close> holds
  \<^verbatim>\<open>ask_response\<close>, the output of \<^verbatim>\<open>ask\<close> itself.
\<close>

theorem step_appends_snapshot_after_counterexample:
  "variables (startContext askFlow []) = []
   \<and> step 1 literalHost testServices askFlow (startContext askFlow []) []
     = Some (Inr \<lparr> currentState = ''greet'',
                   variables = [(''ask_response'', JStr ''test-response'')],
                   history = [\<lparr> h_state = ''ask'', h_timestamp = 0,
                                h_variables = [(''ask_response'', JStr ''test-response'')] \<rparr>] \<rparr>,
             [(''ask_response'', JStr ''test-response'')], [''requestElicitation''])"
  by code_simp


















text \<open>The workflow of the test \<^verbatim>\<open>should stop at terminal states\<close>.\<close>

definition threeStateFlow :: workflow where
  "threeStateFlow =
     \<lparr> initial = ''start'',
       states =
         [(''start'', (blankState TResponse)
              \<lparr> template := Some ''Starting'', transitions := Some [(''default'', ''middle'')] \<rparr>),
          (''middle'', (blankState TResponse)
              \<lparr> template := Some ''Processing'', transitions := Some [(''default'', ''end'')] \<rparr>),
          (''end'', (blankState TResponse) \<lparr> template := Some ''Complete'' \<rparr>)],
       maxSteps = Some (Fin 10) \<rparr>"

text \<open>
  That test expects three history entries at \<^verbatim>\<open>end\<close>; the run has two, those of
  \<^verbatim>\<open>start\<close> and \<^verbatim>\<open>middle\<close>.
\<close>

lemma execute_threeStateFlow:
  "execute 10 literalHost testServices threeStateFlow None []
     = Some (Inr \<lparr> currentState = ''end'', variables = [],
                   history = [\<lparr> h_state = ''start'', h_timestamp = 0, h_variables = [] \<rparr>,
                              \<lparr> h_state = ''middle'', h_timestamp = 0, h_variables = [] \<rparr>] \<rparr>,
             [], [])"
  by code_simp

lemma greetingFlow_valid:
  "validateWorkflow greetingFlow = Inr ([(LDebug, ''Validating workflow: start'')], True)"
  by code_simp

text \<open>
  Claim C4 on the code. Whatever the host and the collaborators, the run of the greeting
  workflow with \<^verbatim>\<open>{name: "Alice"}\<close> returns at \<^verbatim>\<open>end\<close> with \<^verbatim>\<open>name\<close> still \<^verbatim>\<open>Alice\<close>, and
  with one history entry, that of \<^verbatim>\<open>start\<close>: the loop leaves at the terminal state
  \<^verbatim>\<open>end\<close> before executing it.
\<close>

theorem execute_greeting:
  "execute (Suc (Suc n)) h svc greetingFlow (Some [(''name'', JStr ''Alice'')]) w
     = Some (Inr \<lparr> currentState = ''end'', variables = [(''name'', JStr ''Alice'')],
                   history = [\<lparr> h_state = ''start'', h_timestamp = dateNow svc w,
                                h_variables = [(''name'', JStr ''Alice'')] \<rparr>] \<rparr>,
             [(''name'', JStr ''Alice'')], w)
   \<and> length (history \<lparr> currentState = ''end'', variables = [(''name'', JStr ''Alice'')],
                   history = [\<lparr> h_state = ''start'', h_timestamp = dateNow svc w,
                                h_variables = [(''name'', JStr ''Alice'')] \<rparr>] \<rparr>) = 1"
proof -
  let ?vars = "[(''name'', JStr ''Alice'')]"
  let ?ctx0 = "\<lparr> currentState = ''start'', variables = ?vars, history = [] \<rparr>"
  let ?start = "(blankState TResponse)
              \<lparr> template := Some ''Hello {name}'', transitions := Some [(''default'', ''end'')] \<rparr>"
  have s: "map_of (states greetingFlow) ''start'' = Some ?start"
    and e: "map_of (states greetingFlow) ''end''
              = Some ((blankState TResponse) \<lparr> template := Some ''Goodbye {name}'' \<rparr>)"
    by (simp_all add: greetingFlow_def)
  have st: "step (Suc n) h svc greetingFlow ?ctx0 w
              = Some (Inr \<lparr> currentState = ''end'', variables = ?vars,
                   history = [\<lparr> h_state = ''start'', h_timestamp = dateNow svc w,
                                h_variables = ?vars \<rparr>] \<rparr>, ?vars, w)"
    by (simp add: step_def s executeState.simps determineNextState_def blankState_def)
  let ?ctx1 = "\<lparr> currentState = ''end'', variables = ?vars,
                   history = [\<lparr> h_state = ''start'', h_timestamp = dateNow svc w,
                                h_variables = ?vars \<rparr>] \<rparr>"
  have r: "retryStep 2 (Suc n) h svc greetingFlow ?ctx0 w = Some (Inr ?ctx1, ?vars, w)"
    unfolding numeral_2_eq_2 using st by simp
  have loop: "executeLoop (Suc (Suc n)) h svc greetingFlow (Fin 1000) 0 ?ctx0 w
                = Some (Inr ?ctx1, ?vars, w)"
    by (simp add: s e r blankState_def)
  have b: "numberOr (maxSteps greetingFlow) (Fin 1000) = Fin 1000" "initial greetingFlow = ''start''"
    by (simp_all add: numberOr_def greetingFlow_def)
  have "execute (Suc (Suc n)) h svc greetingFlow (Some ?vars) w
          = executeLoop (Suc (Suc n)) h svc greetingFlow (Fin 1000) 0 ?ctx0 w"
    unfolding execute_def Let_def greetingFlow_valid b by simp
  then show ?thesis unfolding loop by simp
qed
































end
